theory Spec2Isabelle
  imports Main "HOL-Library.Multiset"
begin

section \<open>Data model (src/lib/types.ts)\<close>

text \<open>
  Strings are byte strings (\<open>char list\<close>); the readers are modelled on their ASCII
  behaviour. The numeric fields of the layout are validated by the schema as numbers;
  \<open>benches\<close> and \<open>studentsPerBench\<close> are taken as naturals and a floor's
  \<open>number\<close> as an integer.
\<close>

record Student =
  name :: string
  hallTicketNumber :: string
  branch :: string
  contactNumber :: string

record SeatingAssignment = Student +
  block :: string
  floor :: string
  classroom :: string
  benchNumber :: string

record ExamConfig =
  startDate :: string
  endDate :: string
  examTimings :: "string list"
  useSamePlan :: bool

record Room =
  number :: string
  benches :: nat
  studentsPerBench :: nat

record Floor =
  number :: int
  rooms :: "Room list"

record Block =
  name :: string
  floors :: "Floor list"

record LayoutConfig =
  blocks :: "Block list"
  startDate :: string
  endDate :: string
  examTimings :: "string list"

record GenerateSeatingArrangementInput =
  studentListDataUris :: "string list"
  layoutConfig :: LayoutConfig

text \<open>\<open>RoomBranchSummary\<close> is a record of records of counts: an association list from
  classroom to an association list from branch to count, in insertion order.\<close>

type_synonym RoomBranchSummary = "(string \<times> (string \<times> nat) list) list"

text \<open>The messages of the errors raised in seat-arrangement-flow.ts, one constructor per
  message text; \<open>LibraryMessage\<close> carries the message of an error raised by a library.\<close>

datatype message =
    CsvParseFailed
  | CsvNoNameColumn
  | CsvNoHallTicketColumn
  | CsvNoBranchColumn
  | CsvNoContactColumn
  | PdfNotATable
  | PdfNoNameColumn
  | PdfNoHallTicketColumn
  | PdfNoBranchColumn
  | PdfNoContactColumn
  | PdfNoStudents
  | UnsupportedFileType
  | FailedToParseFiles
  | NoStudentData
  | LibraryMessage string

text \<open>A thrown value is an \<open>Error\<close> instance with its message, or some other value.\<close>

datatype thrown = Error message | NonError

record GenerateSeatingArrangementOutput =
  seatingPlan :: "SeatingAssignment list option"
  examConfig :: "ExamConfig option"
  roomBranchSummary :: "RoomBranchSummary option"
  allStudents :: "Student list option"
  error :: "message option"

section \<open>The environment of the flow\<close>

text \<open>
  What Papa.parse hands to its \<open>complete\<close> callback, for the configuration of
  \<open>parseStudentsFromCSV\<close> (header row, empty lines skipped, headers trimmed):
  the list of row-level errors, \<open>meta.fields\<close> and the rows keyed by header.
\<close>

record ParseResult =
  errors :: "string list"
  metaFields :: "string list option"
  data :: "(string \<times> string) list list"

datatype PapaOutcome = Complete ParseResult | ErrorCallback thrown

text \<open>
  The library and runtime functions the flow calls, taken as parameters:
  \<^item> \<open>random k\<close> stands for the \<open>k\<close>-th call of Math.random() in an invocation; the index
    \<open>Math.floor(Math.random() * (i + 1))\<close> is modelled as \<open>random k mod (i + 1)\<close>, which
    ranges over \<open>0..i\<close> as the source's expression does;
  \<^item> \<open>localeCompare\<close> is String.prototype.localeCompare;
  \<^item> \<open>bufferFromBase64\<close> is \<open>Buffer.from(_, 'base64')\<close>, a buffer being a byte string;
  \<^item> \<open>pdfParse\<close> is pdf-parse: the extracted text, or what it throws;
  \<^item> \<open>papaParse\<close> is Papa.parse under the configuration above.
\<close>

record Env =
  random :: "nat \<Rightarrow> nat"
  localeCompare :: "string \<Rightarrow> string \<Rightarrow> int"
  bufferFromBase64 :: "string \<Rightarrow> string"
  pdfParse :: "string \<Rightarrow> thrown + string"
  papaParse :: "string \<Rightarrow> PapaOutcome"

section \<open>String helpers\<close>

text \<open>The ASCII members of the regular expression class \<open>\s\<close>.\<close>

definition isSpace :: "char \<Rightarrow> bool" where
  "isSpace c = (c \<in> set [CHR '' '', CHR 0x09, CHR 0x0A, CHR 0x0B, CHR 0x0C, CHR 0x0D])"

definition toLowerCaseChar :: "char \<Rightarrow> char" where
  "toLowerCaseChar c =
     (case map_of (zip ''ABCDEFGHIJKLMNOPQRSTUVWXYZ'' ''abcdefghijklmnopqrstuvwxyz'') c of
        Some l \<Rightarrow> l
      | None \<Rightarrow> c)"

definition isLowerAlnum :: "char \<Rightarrow> bool" where
  "isLowerAlnum c = (c \<in> set ''abcdefghijklmnopqrstuvwxyz0123456789'')"

definition trim :: "string \<Rightarrow> string" where
  "trim s = rev (dropWhile isSpace (rev (dropWhile isSpace s)))"

definition startsWith :: "string \<Rightarrow> string \<Rightarrow> bool" where
  "startsWith s p = (take (length p) s = p)"

text \<open>\<open>h.includes(k)\<close>: \<open>k\<close> occurs in \<open>h\<close> as a substring.\<close>

fun strIncludes :: "string \<Rightarrow> string \<Rightarrow> bool" where
  "strIncludes [] k = (k = [])"
| "strIncludes (c # cs) k = (startsWith (c # cs) k \<or> strIncludes cs k)"

text \<open>\<open>findIndex\<close> and \<open>indexOf\<close>: \<open>None\<close> stands for \<open>-1\<close>.\<close>

fun findIndex :: "('a \<Rightarrow> bool) \<Rightarrow> 'a list \<Rightarrow> nat option" where
  "findIndex P [] = None"
| "findIndex P (x # xs) = (if P x then Some 0 else map_option Suc (findIndex P xs))"

definition indexOf :: "'a list \<Rightarrow> 'a \<Rightarrow> nat option" where
  "indexOf xs x = findIndex (\<lambda>y. y = x) xs"

text \<open>\<open>s.split(sep)\<close> for a one-character separator.\<close>

fun splitOn :: "char \<Rightarrow> string \<Rightarrow> string list" where
  "splitOn sep [] = [[]]"
| "splitOn sep (c # cs) =
     (if c = sep then [] # splitOn sep cs
      else (case splitOn sep cs of
              [] \<Rightarrow> [[c]]
            | w # ws \<Rightarrow> (c # w) # ws))"

text \<open>\<open>s.split(/\s{2,}/)\<close>: the separators are the maximal runs of two or more
  whitespace characters; \<open>cur\<close> is the field read so far.\<close>

function splitWide :: "string \<Rightarrow> string \<Rightarrow> string list" where
  "splitWide cur [] = [cur]"
| "splitWide cur (c # cs) =
     (if isSpace c \<and> cs \<noteq> [] \<and> isSpace (hd cs)
      then cur # splitWide [] (dropWhile isSpace cs)
      else splitWide (cur @ [c]) cs)"
  by pat_completeness auto
termination
  by (relation "measure (\<lambda>(cur, s). length s)")
     (auto simp: length_dropWhile_le less_Suc_eq_le)

text \<open>\<open>String(n)\<close> for a natural number and for an integer.\<close>

definition digitChar :: "nat \<Rightarrow> char" where
  "digitChar d = ''0123456789'' ! d"

function natToString :: "nat \<Rightarrow> string" where
  "natToString n =
     (if n < 10 then [digitChar n] else natToString (n div 10) @ [digitChar (n mod 10)])"
  by pat_completeness auto
termination
  by (relation "measure id") auto

declare natToString.simps [simp del]

definition numberToString :: "int \<Rightarrow> string" where
  "numberToString n = (if n < 0 then CHR ''-'' # natToString (nat (- n)) else natToString (nat n))"

section \<open>Header resolution\<close>

definition normalizeHeader :: "string \<Rightarrow> string" where
  "normalizeHeader header =
     trim (filter isLowerAlnum (filter (\<lambda>c. \<not> isSpace c) (map toLowerCaseChar header)))"

fun findHeaderMatch :: "string list \<Rightarrow> string list \<Rightarrow> string option" where
  "findHeaderMatch headers [] = None"
| "findHeaderMatch headers (keyword # keywords) =
     (case findIndex (\<lambda>h. strIncludes h (normalizeHeader keyword)) (map normalizeHeader headers) of
        Some index \<Rightarrow> Some (headers ! index)
      | None \<Rightarrow> findHeaderMatch headers keywords)"

text \<open>The keyword lists that both readers pass to \<open>findHeaderMatch\<close>.\<close>

definition nameKeywords :: "string list" where
  "nameKeywords = [''name'', ''studentname'', ''fullname'', ''nameofstudent'']"

definition hallTicketKeywords :: "string list" where
  "hallTicketKeywords =
     [''hallticketnumber'', ''hallticket'', ''ticketnumber'', ''htno'', ''rollno'', ''roll number'']"

definition branchKeywords :: "string list" where
  "branchKeywords = [''branch'', ''department'', ''stream'']"

definition contactKeywords :: "string list" where
  "contactKeywords = [''contactnumber'', ''phone'', ''phonenumber'', ''mobile'', ''contact no'']"

text \<open>\<open>if (!header) throw new Error(msg)\<close>: the header is undefined or empty.\<close>

definition required :: "string option \<Rightarrow> message \<Rightarrow> (string \<Rightarrow> thrown + 'a) \<Rightarrow> thrown + 'a" where
  "required header msg k =
     (case header of
        None \<Rightarrow> Inl (Error msg)
      | Some h \<Rightarrow> if h = [] then Inl (Error msg) else k h)"

section \<open>The readers\<close>

text \<open>\<open>row[header] || ''\<close>\<close>

definition cell :: "(string \<times> string) list \<Rightarrow> string \<Rightarrow> string" where
  "cell row header = (case map_of row header of None \<Rightarrow> [] | Some v \<Rightarrow> v)"

definition parseStudentsFromCSV :: "Env \<Rightarrow> string \<Rightarrow> thrown + Student list" where
  "parseStudentsFromCSV env csvData =
     (case papaParse env csvData of
        ErrorCallback e \<Rightarrow> Inl e
      | Complete results \<Rightarrow>
          if errors results \<noteq> [] then Inl (Error CsvParseFailed)
          else
            let headers = (case metaFields results of None \<Rightarrow> [] | Some fs \<Rightarrow> fs);
                nameHeader = findHeaderMatch headers nameKeywords;
                hallTicketHeader = findHeaderMatch headers hallTicketKeywords;
                branchHeader = findHeaderMatch headers branchKeywords;
                contactHeader = findHeaderMatch headers contactKeywords
            in required nameHeader CsvNoNameColumn (\<lambda>nameHeader.
               required hallTicketHeader CsvNoHallTicketColumn (\<lambda>hallTicketHeader.
               required branchHeader CsvNoBranchColumn (\<lambda>branchHeader.
               required contactHeader CsvNoContactColumn (\<lambda>contactHeader.
                 Inr (filter (\<lambda>s. Student.name s \<noteq> [] \<and> hallTicketNumber s \<noteq> [])
                        (map (\<lambda>row. \<lparr>Student.name = cell row nameHeader,
                                      hallTicketNumber = cell row hallTicketHeader,
                                      branch = cell row branchHeader,
                                      contactNumber = cell row contactHeader\<rparr>)
                             (data results))))))))"

text \<open>\<open>parts[index] || ''\<close>, where \<open>index\<close> comes from \<open>indexOf\<close>.\<close>

definition part :: "string list \<Rightarrow> nat option \<Rightarrow> string" where
  "part parts index =
     (case index of
        None \<Rightarrow> []
      | Some i \<Rightarrow> if i < length parts then parts ! i else [])"

definition parseStudentsFromPDF :: "Env \<Rightarrow> string \<Rightarrow> thrown + Student list" where
  "parseStudentsFromPDF env pdfBuffer =
     (case pdfParse env pdfBuffer of
        Inl e \<Rightarrow> Inl e
      | Inr text \<Rightarrow>
          let lines = filter (\<lambda>line. trim line \<noteq> []) (splitOn (CHR 0x0A) text)
          in if length lines < 2 then Inl (Error PdfNotATable)
             else
               let headers = map trim (splitWide [] (trim (hd lines)));
                   nameHeader = findHeaderMatch headers nameKeywords;
                   hallTicketHeader = findHeaderMatch headers hallTicketKeywords;
                   branchHeader = findHeaderMatch headers branchKeywords;
                   contactHeader = findHeaderMatch headers contactKeywords
               in required nameHeader PdfNoNameColumn (\<lambda>nameHeader.
                  required hallTicketHeader PdfNoHallTicketColumn (\<lambda>hallTicketHeader.
                  required branchHeader PdfNoBranchColumn (\<lambda>branchHeader.
                  required contactHeader PdfNoContactColumn (\<lambda>contactHeader.
                    let nameIndex = indexOf headers nameHeader;
                        hallTicketIndex = indexOf headers hallTicketHeader;
                        branchIndex = indexOf headers branchHeader;
                        contactIndex = indexOf headers contactHeader;
                        students =
                          filter (\<lambda>s. hallTicketNumber s \<noteq> [] \<and> Student.name s \<noteq> [])
                            (concat (map (\<lambda>line.
                               let parts = map trim (splitWide [] (trim line))
                               in if length parts < length headers then []
                                  else [\<lparr>Student.name = part parts nameIndex,
                                         hallTicketNumber = part parts hallTicketIndex,
                                         branch = part parts branchIndex,
                                         contactNumber = part parts contactIndex\<rparr>])
                               (tl lines)))
                    in if students = [] then Inl (Error PdfNoStudents) else Inr students)))))"

section \<open>Roster merger (lines 147-176 of the flow)\<close>

text \<open>\<open>dataUri.substring(dataUri.indexOf(',') + 1)\<close>, then the base64 decoding.\<close>

definition dataUriToBuffer :: "Env \<Rightarrow> string \<Rightarrow> string" where
  "dataUriToBuffer env dataUri =
     bufferFromBase64 env
       (case indexOf dataUri (CHR '','') of
          None \<Rightarrow> dataUri
        | Some i \<Rightarrow> drop (i + 1) dataUri)"

definition parseFile :: "Env \<Rightarrow> string \<Rightarrow> thrown + Student list" where
  "parseFile env dataUri =
     (let buffer = dataUriToBuffer env dataUri
      in if startsWith dataUri ''data:application/pdf'' then parseStudentsFromPDF env buffer
         else if startsWith dataUri ''data:text/csv''
                 \<or> startsWith dataUri ''data:application/vnd.ms-excel''
         then parseStudentsFromCSV env buffer
         else (case parseStudentsFromPDF env buffer of
                 Inr students \<Rightarrow> Inr students
               | Inl pdfError \<Rightarrow>
                   (case parseStudentsFromCSV env buffer of
                      Inr students \<Rightarrow> Inr students
                    | Inl csvError \<Rightarrow> Inl (Error UnsupportedFileType))))"

text \<open>The loop over \<open>input.studentListDataUris\<close>; \<open>acc\<close> is \<open>allStudents\<close> so far.\<close>

fun parseFiles :: "Env \<Rightarrow> string list \<Rightarrow> Student list \<Rightarrow> thrown + Student list" where
  "parseFiles env [] acc = Inr acc"
| "parseFiles env (dataUri # dataUris) acc =
     (case parseFile env dataUri of
        Inl e \<Rightarrow> Inl e
      | Inr students \<Rightarrow> parseFiles env dataUris (acc @ students))"

text \<open>\<open>e instanceof Error ? e.message : "Failed to parse one or more student files."\<close>\<close>

definition caughtMessage :: "thrown \<Rightarrow> message" where
  "caughtMessage e = (case e of Error m \<Rightarrow> m | NonError \<Rightarrow> FailedToParseFiles)"

definition errorOutput :: "message \<Rightarrow> GenerateSeatingArrangementOutput" where
  "errorOutput m =
     \<lparr>seatingPlan = None, examConfig = None, roomBranchSummary = None,
      allStudents = None, error = Some m\<rparr>"

section \<open>Branch partition and shuffle (lines 194-205 of the flow)\<close>

text \<open>\<open>shuffleArray\<close>: the loop runs \<open>i\<close> from \<open>length - 1\<close> down to \<open>1\<close>; \<open>k\<close> counts
  the calls of Math.random() made so far and is returned with the array.\<close>

fun shuffleFrom :: "(nat \<Rightarrow> nat) \<Rightarrow> nat \<Rightarrow> nat \<Rightarrow> 'a list \<Rightarrow> 'a list \<times> nat" where
  "shuffleFrom rnd k 0 array = (array, k)"
| "shuffleFrom rnd k (Suc i') array =
     (let i = Suc i';
          j = rnd k mod (i + 1)
      in shuffleFrom rnd (Suc k) i' (array[i := array ! j, j := array ! i]))"

definition shuffleArray :: "(nat \<Rightarrow> nat) \<Rightarrow> nat \<Rightarrow> 'a list \<Rightarrow> 'a list \<times> nat" where
  "shuffleArray rnd k array = shuffleFrom rnd k (length array - 1) array"

text \<open>The \<open>forEach\<close> that fills \<open>studentsByBranch\<close>, an object used as a dictionary from
  branch to the array of its students, in insertion order.\<close>

definition pushToBranch ::
  "Student \<Rightarrow> (string \<times> Student list) list \<Rightarrow> (string \<times> Student list) list" where
  "pushToBranch student groups =
     (case map_of groups (branch student) of
        None \<Rightarrow> groups @ [(branch student, [student])]
      | Some g \<Rightarrow>
          map (\<lambda>(b, ss). if b = branch student then (b, ss @ [student]) else (b, ss)) groups)"

definition groupByBranch :: "Student list \<Rightarrow> (string \<times> Student list) list" where
  "groupByBranch students = fold pushToBranch students []"

text \<open>
  \<open>Object.keys\<close> and \<open>Object.values\<close> enumerate the keys that are array indices (canonical
  decimal numerals below \<open>2^32 - 1\<close>) first, in ascending numeric order, then the other
  keys in insertion order.
\<close>

definition digitValue :: "char \<Rightarrow> nat" where
  "digitValue c = (case indexOf ''0123456789'' c of None \<Rightarrow> 0 | Some d \<Rightarrow> d)"

definition digitsToNat :: "string \<Rightarrow> nat" where
  "digitsToNat s = foldl (\<lambda>acc c. 10 * acc + digitValue c) 0 s"

definition isArrayIndex :: "string \<Rightarrow> bool" where
  "isArrayIndex s =
     (s \<noteq> [] \<and> list_all (\<lambda>c. c \<in> set ''0123456789'') s
      \<and> natToString (digitsToNat s) = s \<and> digitsToNat s < 4294967295)"

definition ownPropertyOrder :: "(string \<times> 'v) list \<Rightarrow> (string \<times> 'v) list" where
  "ownPropertyOrder entries =
     sort_key (\<lambda>e. digitsToNat (fst e)) (filter (\<lambda>e. isArrayIndex (fst e)) entries)
     @ filter (\<lambda>e. \<not> isArrayIndex (fst e)) entries"

text \<open>\<open>Object.values(studentsByBranch).forEach(shuffleArray)\<close>\<close>

fun shuffleGroups ::
  "(nat \<Rightarrow> nat) \<Rightarrow> nat \<Rightarrow> (string \<times> Student list) list \<Rightarrow> (string \<times> Student list) list \<times> nat"
where
  "shuffleGroups rnd k [] = ([], k)"
| "shuffleGroups rnd k ((b, g) # rest) =
     (let (g', k') = shuffleArray rnd k g;
          (rest', k'') = shuffleGroups rnd k' rest
      in ((b, g') # rest', k''))"

definition buildStudentPool :: "(nat \<Rightarrow> nat) \<Rightarrow> Student list \<Rightarrow> Student list" where
  "buildStudentPool rnd students =
     (let studentsByBranch = ownPropertyOrder (groupByBranch students);
          (shuffled, k) = shuffleGroups rnd 0 studentsByBranch;
          (branchNames, k') = shuffleArray rnd k (map fst shuffled)
      in concat (map (\<lambda>branch. case map_of shuffled branch of None \<Rightarrow> [] | Some g \<Rightarrow> g)
                   branchNames))"

section \<open>Seat allocation (lines 178-192 and 207-276 of the flow)\<close>

definition totalCapacity :: "LayoutConfig \<Rightarrow> nat" where
  "totalCapacity layout =
     fold (\<lambda>b tc. fold (\<lambda>f tc. fold (\<lambda>r tc. tc + benches r * studentsPerBench r)
                                  (rooms f) tc)
                     (floors b) tc)
          (blocks layout) 0"

text \<open>The mutable state of the allocation loops: \<open>studentPool\<close>, \<open>seatingPlan\<close> (here
  \<open>plan\<close>) and \<open>studentIndex\<close>.\<close>

record AllocState =
  studentPool :: "Student list"
  plan :: "SeatingAssignment list"
  studentIndex :: nat

text \<open>\<open>{ ...student, ...seatInfo, benchNumber }\<close>\<close>

definition assign :: "Student \<Rightarrow> Block \<Rightarrow> Floor \<Rightarrow> Room \<Rightarrow> string \<Rightarrow> SeatingAssignment" where
  "assign student blk flr room bench =
     \<lparr>Student.name = Student.name student,
      hallTicketNumber = hallTicketNumber student,
      branch = branch student,
      contactNumber = contactNumber student,
      block = Block.name blk,
      floor = numberToString (Floor.number flr),
      classroom = Room.number room,
      benchNumber = bench\<rparr>"

text \<open>\<open>array.splice(index, 1)\<close>: the array without the element at \<open>index\<close>.\<close>

definition spliceOne :: "nat \<Rightarrow> 'a list \<Rightarrow> 'a list" where
  "spliceOne index xs = take index xs @ drop (Suc index) xs"

text \<open>
  Lines 244-259: with at least two students in the pool, \<open>student1\<close> is the front of the
  pool, \<open>student2\<close> the first student of another branch, or the second element when
  there is none; both are removed from the pool.
\<close>

definition takePair :: "Student list \<Rightarrow> Student \<times> Student \<times> Student list" where
  "takePair pool =
     (let student1 = hd pool;
          differentBranchIndex = findIndex (\<lambda>s. branch s \<noteq> branch student1) pool;
          (student2, pool1) =
            (case differentBranchIndex of
               Some index \<Rightarrow> (pool ! index, spliceOne index pool)
             | None \<Rightarrow> (pool ! 1, spliceOne 1 pool))
      in (student1, student2, tl pool1))"

text \<open>
  One pass through the body of the loop \<open>for (let i = 0; i < roomCapacity; i++)\<close>:
  either the loop is left by \<open>break\<close>, or it goes on with the next value of \<open>i\<close> (the
  increment of the loop header included) and of \<open>benchCounter\<close>.
\<close>

datatype LoopStep = Break AllocState | Continue nat nat AllocState

definition roomStep ::
  "nat \<Rightarrow> Block \<Rightarrow> Floor \<Rightarrow> Room \<Rightarrow> nat \<Rightarrow> nat \<Rightarrow> AllocState \<Rightarrow> LoopStep" where
  "roomStep totalCap blk flr room i benchCounter st =
     (if totalCap \<le> studentIndex st \<or> studentPool st = [] then Break st
      else if studentsPerBench room = 1 then
        (case studentPool st of
           [] \<Rightarrow> Continue (i + 1) benchCounter st
         | student # rest \<Rightarrow>
             Continue (i + 1) (benchCounter + 1)
               (st\<lparr>studentPool := rest,
                   plan := plan st @ [assign student blk flr room (natToString benchCounter)],
                   studentIndex := studentIndex st + 1\<rparr>))
      else if studentsPerBench room = 2 then
        (if length (studentPool st) < 2 then
           (case studentPool st of
              [] \<Rightarrow> Continue (i + 1) benchCounter st
            | student # rest \<Rightarrow>
                Continue (i + 1) (benchCounter + 1)
                  (st\<lparr>studentPool := rest,
                      plan := plan st
                        @ [assign student blk flr room (natToString benchCounter @ ''L'')],
                      studentIndex := studentIndex st + 1\<rparr>))
         else
           (case takePair (studentPool st) of
              (student1, student2, rest) \<Rightarrow>
                let st1 = st\<lparr>studentPool := rest,
                             plan := plan st
                               @ [assign student1 blk flr room
                                    (natToString benchCounter @ ''L'')],
                             studentIndex := studentIndex st + 1\<rparr>
                in if totalCap \<le> studentIndex st1 then Break st1
                   else Continue (i + 2) (benchCounter + 1)
                          (st1\<lparr>plan := plan st1
                                 @ [assign student2 blk flr room
                                      (natToString benchCounter @ ''R'')],
                               studentIndex := studentIndex st1 + 1\<rparr>)))
      else Continue (i + 1) benchCounter st)"

function roomLoop ::
  "nat \<Rightarrow> Block \<Rightarrow> Floor \<Rightarrow> Room \<Rightarrow> nat \<Rightarrow> nat \<Rightarrow> nat \<Rightarrow> AllocState \<Rightarrow> AllocState" where
  "roomLoop totalCap blk flr room roomCapacity i benchCounter st =
     (if i < roomCapacity then
        (case roomStep totalCap blk flr room i benchCounter st of
           Break st' \<Rightarrow> st'
         | Continue i' benchCounter' st' \<Rightarrow>
             roomLoop totalCap blk flr room roomCapacity i' benchCounter' st')
      else st)"
  by pat_completeness auto
termination
  by (relation "measure (\<lambda>(totalCap, blk, flr, room, roomCapacity, i, benchCounter, st).
                           roomCapacity - i)")
     (auto simp: roomStep_def Let_def split: if_splits list.splits option.splits prod.splits)

declare roomLoop.simps [simp del]

text \<open>\<open>Math.min(room.benches, 45) * room.studentsPerBench\<close>\<close>

definition roomCapacity :: "Room \<Rightarrow> nat" where
  "roomCapacity room = min (benches room) 45 * studentsPerBench room"

text \<open>\<open>for (const room of floor.rooms)\<close>: the \<open>break\<close> leaves the loop over this
  floor's rooms.\<close>

fun roomsLoop :: "nat \<Rightarrow> Block \<Rightarrow> Floor \<Rightarrow> Room list \<Rightarrow> AllocState \<Rightarrow> AllocState" where
  "roomsLoop totalCap blk flr [] st = st"
| "roomsLoop totalCap blk flr (room # rest) st =
     (if totalCap \<le> studentIndex st then st
      else roomsLoop totalCap blk flr rest
             (roomLoop totalCap blk flr room (roomCapacity room) 0 1 st))"

definition floorsLoop :: "nat \<Rightarrow> Block \<Rightarrow> AllocState \<Rightarrow> AllocState" where
  "floorsLoop totalCap blk st =
     fold (\<lambda>flr st. roomsLoop totalCap blk flr (rooms flr) st) (floors blk) st"

definition blocksLoop :: "nat \<Rightarrow> LayoutConfig \<Rightarrow> AllocState \<Rightarrow> AllocState" where
  "blocksLoop totalCap layout st = fold (\<lambda>blk st. floorsLoop totalCap blk st) (blocks layout) st"

definition allocateSeats :: "LayoutConfig \<Rightarrow> Student list \<Rightarrow> AllocState" where
  "allocateSeats layout pool =
     blocksLoop (totalCapacity layout) layout
       \<lparr>studentPool = pool, plan = [], studentIndex = 0\<rparr>"

section \<open>Sorting and summary (lines 278-300 of the flow)\<close>

text \<open>\<open>seatingPlan.sort((a, b) => a.hallTicketNumber.localeCompare(b.hallTicketNumber))\<close>:
  Array.prototype.sort is stable; it is modelled as a stable insertion sort under the
  comparator.\<close>

fun insertByTicket ::
  "(string \<Rightarrow> string \<Rightarrow> int) \<Rightarrow> SeatingAssignment \<Rightarrow> SeatingAssignment list
   \<Rightarrow> SeatingAssignment list" where
  "insertByTicket cmp a [] = [a]"
| "insertByTicket cmp a (b # bs) =
     (if cmp (hallTicketNumber a) (hallTicketNumber b) \<le> 0 then a # b # bs
      else b # insertByTicket cmp a bs)"

definition sortByTicket ::
  "(string \<Rightarrow> string \<Rightarrow> int) \<Rightarrow> SeatingAssignment list \<Rightarrow> SeatingAssignment list" where
  "sortByTicket cmp as = foldr (insertByTicket cmp) as []"

text \<open>\<open>obj[key] = value\<close> on a dictionary.\<close>

fun setKey :: "'k \<Rightarrow> 'v \<Rightarrow> ('k \<times> 'v) list \<Rightarrow> ('k \<times> 'v) list" where
  "setKey k v [] = [(k, v)]"
| "setKey k v (p # ps) = (if fst p = k then (k, v) # ps else p # setKey k v ps)"

text \<open>The body of \<open>seatingPlan.forEach\<close> that fills \<open>roomBranchSummary\<close>.\<close>

definition countAssignment :: "SeatingAssignment \<Rightarrow> RoomBranchSummary \<Rightarrow> RoomBranchSummary" where
  "countAssignment assignment summary =
     (let room = classroom assignment;
          br = branch assignment;
          summary1 = (case map_of summary room of
                        None \<Rightarrow> setKey room [] summary
                      | Some _ \<Rightarrow> summary);
          counts = (case map_of summary1 room of None \<Rightarrow> [] | Some m \<Rightarrow> m);
          counts1 = (case map_of counts br of
                       None \<Rightarrow> setKey br 0 counts
                     | Some c \<Rightarrow> if c = 0 then setKey br 0 counts else counts);
          c = (case map_of counts1 br of None \<Rightarrow> 0 | Some c \<Rightarrow> c)
      in setKey room (setKey br (c + 1) counts1) summary1)"

definition summarize :: "SeatingAssignment list \<Rightarrow> RoomBranchSummary" where
  "summarize as = fold countAssignment as []"

definition summaryTotal :: "RoomBranchSummary \<Rightarrow> nat" where
  "summaryTotal summary = sum_list (map (\<lambda>(room, counts). sum_list (map snd counts)) summary)"

section \<open>The flow\<close>

text \<open>Lines 178-300: what the flow returns once the roster is parsed and not empty.\<close>

definition arrange ::
  "Env \<Rightarrow> LayoutConfig \<Rightarrow> Student list \<Rightarrow> GenerateSeatingArrangementOutput" where
  "arrange env layout students =
     (let pool = buildStudentPool (random env) students;
          sorted = sortByTicket (localeCompare env) (plan (allocateSeats layout pool))
      in \<lparr>seatingPlan = Some sorted,
          examConfig = Some \<lparr>ExamConfig.startDate = LayoutConfig.startDate layout,
                             endDate = LayoutConfig.endDate layout,
                             examTimings = LayoutConfig.examTimings layout,
                             useSamePlan = True\<rparr>,
          roomBranchSummary = Some (summarize sorted),
          allStudents = Some students,
          error = None\<rparr>)"

definition seatingArrangementFlow ::
  "Env \<Rightarrow> GenerateSeatingArrangementInput \<Rightarrow> GenerateSeatingArrangementOutput" where
  "seatingArrangementFlow env input =
     (case parseFiles env (studentListDataUris input) [] of
        Inl e \<Rightarrow> errorOutput (caughtMessage e)
      | Inr students \<Rightarrow>
          if students = [] then errorOutput NoStudentData
          else arrange env (layoutConfig input) students)"

section \<open>Vocabulary of the properties\<close>

text \<open>The rooms of a layout with their block and floor, in the order in which the three
  nested loops visit them.\<close>

definition layoutRooms :: "LayoutConfig \<Rightarrow> (Block \<times> Floor \<times> Room) list" where
  "layoutRooms layout =
     concat (map (\<lambda>blk. concat (map (\<lambda>flr. map (\<lambda>room. (blk, flr, room)) (rooms flr))
                                   (floors blk)))
                 (blocks layout))"

text \<open>The sum of the room capacities, each with its bench count capped at 45.\<close>

definition seatCapacity :: "LayoutConfig \<Rightarrow> nat" where
  "seatCapacity layout = sum_list (map (\<lambda>(blk, flr, room). roomCapacity room) (layoutRooms layout))"

text \<open>What \<open>RoomSchema\<close> admits for a room: a name, at least one bench, one or two
  students per bench.\<close>

definition validRoom :: "Room \<Rightarrow> bool" where
  "validRoom room =
     (Room.number room \<noteq> [] \<and> 1 \<le> benches room
      \<and> 1 \<le> studentsPerBench room \<and> studentsPerBench room \<le> 2)"

definition validLayout :: "LayoutConfig \<Rightarrow> bool" where
  "validLayout layout = list_all (\<lambda>(blk, flr, room). validRoom room) (layoutRooms layout)"

text \<open>The student, the room and the seat of an assignment; the identification a room
  gives to the assignments made in it.\<close>

definition studentOf :: "SeatingAssignment \<Rightarrow> Student" where
  "studentOf a =
     \<lparr>Student.name = Student.name a, hallTicketNumber = hallTicketNumber a,
      branch = branch a, contactNumber = contactNumber a\<rparr>"

definition roomOf :: "SeatingAssignment \<Rightarrow> string \<times> string \<times> string" where
  "roomOf a = (block a, floor a, classroom a)"

definition seatOf :: "SeatingAssignment \<Rightarrow> string \<times> string \<times> string \<times> string" where
  "seatOf a = (block a, floor a, classroom a, benchNumber a)"

definition roomKey :: "Block \<times> Floor \<times> Room \<Rightarrow> string \<times> string \<times> string" where
  "roomKey r =
     (case r of (blk, flr, room) \<Rightarrow>
        (Block.name blk, numberToString (Floor.number flr), Room.number room))"

text \<open>The visit of one room, and of a list of rooms one after the other: the nested
  loops of the allocation are the visit of \<open>layoutRooms\<close>.\<close>

definition visitRoom :: "nat \<Rightarrow> Block \<times> Floor \<times> Room \<Rightarrow> AllocState \<Rightarrow> AllocState" where
  "visitRoom totalCap r st =
     (case r of (blk, flr, room) \<Rightarrow>
        if totalCap \<le> studentIndex st then st
        else roomLoop totalCap blk flr room (roomCapacity room) 0 1 st)"

definition visitRooms :: "nat \<Rightarrow> (Block \<times> Floor \<times> Room) list \<Rightarrow> AllocState \<Rightarrow> AllocState" where
  "visitRooms totalCap rs st = fold (visitRoom totalCap) rs st"

text \<open>The number of assignments of a plan in the room identified by \<open>t\<close>, and the
  capacity of the rooms of a layout identified by \<open>t\<close>.\<close>

definition roomCount :: "string \<times> string \<times> string \<Rightarrow> SeatingAssignment list \<Rightarrow> nat" where
  "roomCount t as = length (filter (\<lambda>a. roomOf a = t) as)"

definition keyCapacity :: "string \<times> string \<times> string \<Rightarrow> LayoutConfig \<Rightarrow> nat" where
  "keyCapacity t layout =
     sum_list (map (\<lambda>(blk, flr, room). roomCapacity room)
                 (filter (\<lambda>r. roomKey r = t) (layoutRooms layout)))"

text \<open>An assignment whose bench number is that of a bench visited before the bench
  counter reached \<open>bc\<close>.\<close>

definition benchBelow :: "nat \<Rightarrow> SeatingAssignment \<Rightarrow> bool" where
  "benchBelow bc a =
     (\<exists>n sfx. n < bc \<and> sfx \<in> {[], ''L'', ''R''} \<and> benchNumber a = natToString n @ sfx)"

text \<open>An assignment to the right side of a two-seat bench, and the assignment to the
  left side of the same bench.\<close>

definition isRightSeat :: "SeatingAssignment \<Rightarrow> bool" where
  "isRightSeat a = (benchNumber a \<noteq> [] \<and> last (benchNumber a) = CHR ''R'')"

definition leftOf :: "SeatingAssignment \<Rightarrow> SeatingAssignment \<Rightarrow> bool" where
  "leftOf l r = (roomOf l = roomOf r \<and> benchNumber l = butlast (benchNumber r) @ ''L'')"

text \<open>
  In a list of assignments in the order in which they were made, followed by the pool
  that is left: an assignment to a right side comes just after the assignment to the
  left side of its bench, and whenever the two have the same branch, every later
  assignment and every student left has that branch too.
\<close>

fun pairsRespected :: "SeatingAssignment list \<Rightarrow> Student list \<Rightarrow> bool" where
  "pairsRespected (l # r # post) rest =
     ((isRightSeat r
        \<longrightarrow> leftOf l r
            \<and> (branch r = branch l
                 \<longrightarrow> list_all (\<lambda>a. branch a = branch l) post
                     \<and> list_all (\<lambda>s. branch s = branch l) rest))
      \<and> pairsRespected (r # post) rest)"
| "pairsRespected [a] rest = True"
| "pairsRespected [] rest = True"

section \<open>Header resolution on the example header row\<close>

text \<open>
  C3 (as stated, refuted): on the header row "Roll No", "Student Name", "Dept", "Mobile"
  the branch column does not resolve to "Dept": the normalised header \<open>dept\<close> contains
  none of the keywords \<open>branch\<close>, \<open>department\<close>, \<open>stream\<close>.
\<close>

theorem C3_dept_counterexample:
  "findHeaderMatch [''Roll No'', ''Student Name'', ''Dept'', ''Mobile''] branchKeywords
     \<noteq> Some ''Dept''"
  by code_simp

text \<open>
  C3 (amended): on that header row, "Roll No" resolves to hallTicketNumber, "Student Name"
  to name and "Mobile" to contactNumber, and the branch field resolves to no header at
  all.
\<close>

theorem C3_header_resolution:
  "findHeaderMatch [''Roll No'', ''Student Name'', ''Dept'', ''Mobile''] hallTicketKeywords
     = Some ''Roll No''
   \<and> findHeaderMatch [''Roll No'', ''Student Name'', ''Dept'', ''Mobile''] nameKeywords
     = Some ''Student Name''
   \<and> findHeaderMatch [''Roll No'', ''Student Name'', ''Dept'', ''Mobile''] contactKeywords
     = Some ''Mobile''
   \<and> findHeaderMatch [''Roll No'', ''Student Name'', ''Dept'', ''Mobile''] branchKeywords
     = None"
  by code_simp

end
